theory Spec2Isabelle
  imports Complex_Main
begin

section \<open>Phone number helpers (whatsapp\_api.py, lines 201--236)\<close>

text \<open>
  Python strings are modelled as \<open>string\<close>, read as ASCII text: on such text
  \<open>str.isdigit\<close> holds exactly for the characters \<open>0\<close> .. \<open>9\<close>.
\<close>

definition isdigit :: "char \<Rightarrow> bool" where
  "isdigit c = (c \<in> set ''0123456789'')"




section \<open>Values, dictionaries and exceptions\<close>

text \<open>
  A contact is one row of \<open>csv.DictReader\<close>: a dictionary from column names to
  strings, kept as an association list and read with \<open>map_of\<close>. The dictionary that
  \<open>send_message\<close> returns holds strings and integers.
\<close>

datatype pyval = PStr string | PInt int

type_synonym contact = "(string \<times> string) list"

type_synonym pydict = "(string \<times> pyval) list"

text \<open>
  The exceptions the per-contact \<open>try\<close> block can see: the three that \<open>str.format\<close>
  and a dictionary lookup raise, a division by zero, and whatever a progress callback
  raises (carried with its \<open>str\<close>).
\<close>

datatype py_exn =
    KeyError string
  | ValueError string
  | IndexError nat
  | ZeroDivisionError
  | Raised string

definition quote :: string where
  "quote = [CHR 0x27]"

text \<open>\<open>str(n)\<close> for an integer.\<close>

fun str_nat :: "nat \<Rightarrow> string" where
  "str_nat n =
     (if n < 10 then [''0123456789'' ! n]
      else str_nat (n div 10) @ [''0123456789'' ! (n mod 10)])"

definition str_int :: "int \<Rightarrow> string" where
  "str_int i = (if i < 0 then ''-'' @ str_nat (nat (- i)) else str_nat (nat i))"

text \<open>
  \<open>str(e)\<close>. For a \<open>KeyError\<close> it is the \<open>repr\<close> of the key, which for a key
  without quotes, backslashes or control characters is the key between single quotes.
\<close>

fun py_str :: "py_exn \<Rightarrow> string" where
  "py_str (KeyError k) = quote @ k @ quote"
| "py_str (ValueError m) = m"
| "py_str (IndexError i) =
     ''Replacement index '' @ str_nat i @ '' out of range for positional args tuple''"
| "py_str ZeroDivisionError = ''division by zero''"
| "py_str (Raised m) = m"

section \<open>Template rendering: \<open>message_template.format(**contact)\<close>\<close>

text \<open>
  The model of \<open>str.format\<close> called with keyword arguments only. It covers literal
  text, the escapes \<open>{{\<close> and \<open>}}\<close>, and replacement fields \<open>{name}\<close> whose name is
  looked up among the keywords. A field with an empty or an all-digit name asks for
  a positional argument, and there is none. Fields with a conversion (\<open>!\<close>), a format
  specification (\<open>:\<close>), an attribute (\<open>.\<close>), an index (\<open>[\<close>) or a brace inside are
  outside the modelled fragment; \<open>plain_template\<close> below says that a template has none.
  Errors come in reading order, as the scanner of \<open>str.format\<close> raises them.
\<close>

definition digit_value :: "char \<Rightarrow> nat" where
  "digit_value c = of_char c - 48"

definition lookup_field :: "contact \<Rightarrow> string \<Rightarrow> py_exn + string" where
  "lookup_field kwargs name =
     (if name = [] then Inl (IndexError 0)
      else if list_all isdigit name
        then Inl (IndexError (foldl (\<lambda>a c. 10 * a + digit_value c) 0 name))
      else (case map_of kwargs name of
              None \<Rightarrow> Inl (KeyError name)
            | Some v \<Rightarrow> Inr v))"

definition open_brace :: char where
  "open_brace = CHR 0x7B"

definition close_brace :: char where
  "close_brace = CHR 0x7D"

function py_format :: "string \<Rightarrow> contact \<Rightarrow> py_exn + string" where
  "py_format [] kwargs = Inr []"
| "py_format (c # cs) kwargs =
     (if c = open_brace then
        (case cs of
           [] \<Rightarrow> Inl (ValueError (''Single '' @ quote @ [open_brace] @ quote @
                                  '' encountered in format string''))
         | d # ds \<Rightarrow>
             if d = open_brace then
               (case py_format ds kwargs of
                  Inl e \<Rightarrow> Inl e
                | Inr out \<Rightarrow> Inr (open_brace # out))
             else
               (case dropWhile (\<lambda>x. x \<noteq> close_brace) cs of
                  [] \<Rightarrow> Inl (ValueError (''expected '' @ quote @ [close_brace] @ quote @
                                         '' before end of string''))
                | b # rest \<Rightarrow>
                    (case lookup_field kwargs (takeWhile (\<lambda>x. x \<noteq> close_brace) cs) of
                       Inl e \<Rightarrow> Inl e
                     | Inr v \<Rightarrow>
                         (case py_format rest kwargs of
                            Inl e \<Rightarrow> Inl e
                          | Inr out \<Rightarrow> Inr (v @ out)))))
      else if c = close_brace then
        (case cs of
           [] \<Rightarrow> Inl (ValueError (''Single '' @ quote @ [close_brace] @ quote @
                                  '' encountered in format string''))
         | d # ds \<Rightarrow>
             if d = close_brace then
               (case py_format ds kwargs of
                  Inl e \<Rightarrow> Inl e
                | Inr out \<Rightarrow> Inr (close_brace # out))
             else Inl (ValueError (''Single '' @ quote @ [close_brace] @ quote @
                                    '' encountered in format string'')))
      else
        (case py_format cs kwargs of
           Inl e \<Rightarrow> Inl e
         | Inr out \<Rightarrow> Inr (c # out)))"
  by pat_completeness auto
termination
proof (relation "measure (\<lambda>(t, k). length t)")
  fix c :: char and cs :: string and kwargs :: contact and d ds b rest v
  assume "dropWhile (\<lambda>x. x \<noteq> close_brace) cs = b # rest"
  then have "length rest < length (dropWhile (\<lambda>x. x \<noteq> close_brace) cs)"
    by simp
  also have "\<dots> \<le> length cs"
    by (rule length_dropWhile_le)
  finally show "((rest, kwargs), c # cs, kwargs) \<in> measure (\<lambda>(t, k). length t)"
    by simp
qed auto




section \<open>Configuration, the client's state and the world around it\<close>

text \<open>
  \<open>config.py\<close>: \<open>MAX_RETRIES = 3\<close>, \<open>RETRY_DELAY = 5\<close> (seconds), \<open>RATE_LIMIT = 20\<close>
  (messages per minute). The claims vary them, so they are parameters.
\<close>

record config =
  max_retries :: int
  retry_delay :: nat
  rate_limit :: int

definition default_config :: config where
  "default_config = \<lparr>max_retries = 3, retry_delay = 5, rate_limit = 20\<rparr>"

text \<open>
  The JSON payload of \<open>requests.post\<close>: a text message, or an image message when an
  image URL is given. The endpoint and the headers are the same for every call.
\<close>

datatype payload =
    TextMessage string string
  | ImageMessage string string

text \<open>
  What \<open>requests.post\<close> does: it returns a response (status code and JSON body, an
  object) or raises a \<open>requests.RequestException\<close> (carried with its \<open>str\<close>). The
  transport is a stub the caller supplies; it is told how many calls came before.
\<close>

datatype http_result =
    Response int pydict
  | RequestException string

type_synonym transport = "nat \<Rightarrow> payload \<Rightarrow> http_result"

text \<open>The summary dictionary of \<open>send_bulk_messages\<close>.\<close>

record results =
  total :: int
  successful :: int
  failed :: int
  failures :: "(contact \<times> pyval) list"

text \<open>
  The state: the two fields of \<open>WhatsAppAPI\<close> that change (\<open>message_count\<close>,
  \<open>last_reset_time\<close>), the clock that \<open>time.time()\<close> reads and \<open>time.sleep\<close> advances
  (nothing else takes time), and three logs: the payloads posted, the number of one-second sleeps of
  \<open>_wait_for_rate_limit\<close>, and the arguments of every call of the progress callback.
  Logging has no effect on any of them and is left out.
\<close>

record world =
  message_count :: int
  last_reset_time :: real
  now :: real
  posts :: "payload list"
  polls :: nat
  reports :: "(real \<times> results) list"

text \<open>\<open>__init__\<close> at time \<open>t\<close>.\<close>

definition init_world :: "real \<Rightarrow> world" where
  "init_world t =
     \<lparr>message_count = 0, last_reset_time = t, now = t, posts = [], polls = 0, reports = []\<rparr>"

definition sleep :: "real \<Rightarrow> world \<Rightarrow> world" where
  "sleep d w = w\<lparr>now := now w + d\<rparr>"

section \<open>The rate limiter (whatsapp\_api.py, lines 40--60)\<close>

definition check_rate_limit :: "config \<Rightarrow> world \<Rightarrow> bool \<times> world" where
  "check_rate_limit cfg w =
     (let current_time = now w;
          w1 = (if current_time - last_reset_time w \<ge> 60
                then w\<lparr>message_count := 0, last_reset_time := current_time\<rparr>
                else w)
      in if message_count w1 \<ge> rate_limit cfg then (False, w1) else (True, w1))"

text \<open>
  \<open>while not self._check_rate_limit(): time.sleep(1)\<close>. The loop runs forever when
  the limit is not positive, so the result is optional: \<open>None\<close> is not returning.
\<close>

partial_function (option) wait_for_rate_limit :: "config \<Rightarrow> world \<Rightarrow> world option" where
  "wait_for_rate_limit cfg w =
     (case check_rate_limit cfg w of
        (ok, w1) \<Rightarrow>
          if ok then Some w1
          else wait_for_rate_limit cfg (sleep 1 (w1\<lparr>polls := polls w1 + 1\<rparr>)))"

declare wait_for_rate_limit.simps [code]

section \<open>\<open>send_message\<close> (whatsapp\_api.py, lines 62--133)\<close>

text \<open>\<open>if image_url:\<close> is false for \<open>None\<close> and for the empty string.\<close>

definition make_payload :: "string \<Rightarrow> string \<Rightarrow> string option \<Rightarrow> payload" where
  "make_payload phone_number message image_url =
     (case image_url of
        None \<Rightarrow> TextMessage phone_number message
      | Some u \<Rightarrow> if u = [] then TextMessage phone_number message
                  else ImageMessage phone_number u)"

definition status_error_msg :: "string \<Rightarrow> int \<Rightarrow> string" where
  "status_error_msg phone_number status_code =
     ''Failed to send message to '' @ phone_number @ ''. Status: '' @ str_int status_code"

definition network_error_msg :: "string \<Rightarrow> string \<Rightarrow> string" where
  "network_error_msg phone_number e =
     ''Network error while sending message to '' @ phone_number @ '': '' @ e"

function send_message ::
  "config \<Rightarrow> transport \<Rightarrow> string \<Rightarrow> string \<Rightarrow> string option \<Rightarrow> int \<Rightarrow> world
     \<Rightarrow> (pydict \<times> world) option" where
  "send_message cfg tr phone_number message image_url retry_count w =
     (case wait_for_rate_limit cfg w of
        None \<Rightarrow> None
      | Some w1 \<Rightarrow>
          let payload = make_payload phone_number message image_url;
              w2 = w1\<lparr>posts := posts w1 @ [payload]\<rparr>
          in (case tr (length (posts w1)) payload of
                Response status_code body \<Rightarrow>
                  if status_code = 200
                  then Some (body, w2\<lparr>message_count := message_count w2 + 1\<rparr>)
                  else if retry_count < max_retries cfg
                  then send_message cfg tr phone_number message image_url (retry_count + 1)
                         (sleep (real (retry_delay cfg)) w2)
                  else Some ([(''error'', PStr (status_error_msg phone_number status_code)),
                              (''status_code'', PInt status_code)], w2)
              | RequestException e \<Rightarrow>
                  if retry_count < max_retries cfg
                  then send_message cfg tr phone_number message image_url (retry_count + 1)
                         (sleep (real (retry_delay cfg)) w2)
                  else Some ([(''error'', PStr (network_error_msg phone_number e))], w2)))"
  by pat_completeness auto
termination
  by (relation "measure (\<lambda>(cfg, tr, p, m, i, retry_count, w). nat (max_retries cfg - retry_count))")
     auto

section \<open>\<open>send_bulk_messages\<close> (whatsapp\_api.py, lines 135--199)\<close>

text \<open>
  A progress callback is called with the percentage and the summary dictionary; it
  returns, or raises an exception. It is taken to read the dictionary only; the log
  \<open>reports\<close> keeps the dictionary as it is at the moment of the call.
\<close>

type_synonym callback = "real \<Rightarrow> results \<Rightarrow> py_exn option"

text \<open>The two places that count a failure: line 177 and the \<open>except\<close> block.\<close>

definition record_failure :: "contact \<Rightarrow> pyval \<Rightarrow> results \<Rightarrow> results" where
  "record_failure contact err r =
     r\<lparr>failed := failed r + 1, failures := failures r @ [(contact, err)]\<rparr>"

text \<open>Lines 174--181: the response counts as a success when it has no key \<open>error\<close>.\<close>

definition update_results :: "contact \<Rightarrow> pydict \<Rightarrow> results \<Rightarrow> results" where
  "update_results contact response r =
     (case map_of response ''error'' of
        None \<Rightarrow> r\<lparr>successful := successful r + 1\<rparr>
      | Some err \<Rightarrow> record_failure contact err r)"

text \<open>Line 185: \<open>(index + 1) / len(contacts) * 100\<close>, for \<open>len(contacts) > 0\<close>.\<close>

definition progress_percent :: "nat \<Rightarrow> nat \<Rightarrow> real" where
  "progress_percent n index = (real index + 1) / real n * 100"

text \<open>
  Lines 184--186, inside the \<open>try\<close> block: the callback, when there is one, is called
  with the percentage and the summary. When it raises, the \<open>except\<close> block counts a
  failure for the contact on the summary as it stands; so it does when the division
  raises, which needs \<open>n = 0\<close> and does not happen inside the loop.
\<close>

definition report_progress ::
  "callback option \<Rightarrow> nat \<Rightarrow> nat \<Rightarrow> contact \<Rightarrow> results \<Rightarrow> world \<Rightarrow> results \<times> world" where
  "report_progress cb n index contact r w =
     (case cb of
        None \<Rightarrow> (r, w)
      | Some f \<Rightarrow>
          if n = 0 then (record_failure contact (PStr (py_str ZeroDivisionError)) r, w)
          else
            let progress = progress_percent n index;
                w1 = w\<lparr>reports := reports w @ [(progress, r)]\<rparr>
            in (case f progress r of
                  None \<Rightarrow> (r, w1)
                | Some e \<Rightarrow> (record_failure contact (PStr (py_str e)) r, w1)))"

text \<open>
  The body of the \<open>for\<close> loop for the contact at \<open>index\<close> of \<open>n\<close> contacts. Every
  exception raised inside the \<open>try\<close> block ends in the \<open>except\<close> block, which counts a
  failure with \<open>str(e)\<close>: a failed rendering, a contact without \<open>phone_number\<close>, a
  callback that raises.
\<close>

definition process_contact ::
  "config \<Rightarrow> transport \<Rightarrow> string \<Rightarrow> string option \<Rightarrow> callback option \<Rightarrow> nat \<Rightarrow> nat
     \<Rightarrow> contact \<Rightarrow> results \<Rightarrow> world \<Rightarrow> (results \<times> world) option" where
  "process_contact cfg tr message_template image_url cb n index contact r w =
     (case py_format message_template contact of
        Inl e \<Rightarrow> Some (record_failure contact (PStr (py_str e)) r, w)
      | Inr custom_message \<Rightarrow>
          (case map_of contact ''phone_number'' of
             None \<Rightarrow>
               Some (record_failure contact (PStr (py_str (KeyError ''phone_number''))) r, w)
           | Some phone_number \<Rightarrow>
               (case send_message cfg tr phone_number custom_message image_url 0 w of
                  None \<Rightarrow> None
                | Some (response, w1) \<Rightarrow>
                    Some (report_progress cb n index contact
                            (update_results contact response r) w1))))"

text \<open>\<open>for index, contact in enumerate(contacts)\<close>, from \<open>index\<close> on.\<close>

fun bulk_loop ::
  "config \<Rightarrow> transport \<Rightarrow> string \<Rightarrow> string option \<Rightarrow> callback option \<Rightarrow> nat \<Rightarrow> nat
     \<Rightarrow> contact list \<Rightarrow> results \<Rightarrow> world \<Rightarrow> (results \<times> world) option" where
  "bulk_loop cfg tr message_template image_url cb n index [] r w = Some (r, w)"
| "bulk_loop cfg tr message_template image_url cb n index (contact # rest) r w =
     (case process_contact cfg tr message_template image_url cb n index contact r w of
        None \<Rightarrow> None
      | Some (r1, w1) \<Rightarrow>
          bulk_loop cfg tr message_template image_url cb n (index + 1) rest r1 w1)"

definition send_bulk_messages ::
  "config \<Rightarrow> transport \<Rightarrow> contact list \<Rightarrow> string \<Rightarrow> string option \<Rightarrow> callback option
     \<Rightarrow> world \<Rightarrow> (results \<times> world) option" where
  "send_bulk_messages cfg tr contacts message_template image_url cb w =
     bulk_loop cfg tr message_template image_url cb (length contacts) 0 contacts
       \<lparr>total = int (length contacts), successful = 0, failed = 0, failures = []\<rparr> w"

section \<open>Notions used to state the properties\<close>

text \<open>A transport result counts as a success exactly on status code 200 (line 111).\<close>

definition succeeded :: "http_result \<Rightarrow> bool" where
  "succeeded r =
     (case r of
        Response status_code body \<Rightarrow> status_code = 200
      | RequestException e \<Rightarrow> False)"

text \<open>The error text that \<open>send_message\<close> builds from a failed attempt.\<close>

definition error_text :: "string \<Rightarrow> http_result \<Rightarrow> string" where
  "error_text phone_number r =
     (case r of
        Response status_code body \<Rightarrow> status_error_msg phone_number status_code
      | RequestException e \<Rightarrow> network_error_msg phone_number e)"

text \<open>The dictionary \<open>send_message\<close> returns when \<open>r\<close> is the result of its last attempt.\<close>

definition outcome :: "string \<Rightarrow> http_result \<Rightarrow> pydict" where
  "outcome phone_number r =
     (case r of
        Response status_code body \<Rightarrow>
          if status_code = 200 then body
          else [(''error'', PStr (status_error_msg phone_number status_code)),
                (''status_code'', PInt status_code)]
      | RequestException e \<Rightarrow> [(''error'', PStr (network_error_msg phone_number e))])"

text \<open>How many of the logged callback invocations ended in an exception.\<close>

definition callback_errors :: "callback option \<Rightarrow> (real \<times> results) list \<Rightarrow> nat" where
  "callback_errors cb reps =
     (case cb of
        None \<Rightarrow> 0
      | Some f \<Rightarrow> length (filter (\<lambda>(p, s). f p s \<noteq> None) reps))"

section \<open>Properties\<close>

subsection \<open>The rate limiter and \<open>send_message\<close>\<close>

lemma wait_pass:
  "fst (check_rate_limit cfg w) \<Longrightarrow> wait_for_rate_limit cfg w = Some (snd (check_rate_limit cfg w))"
  by (subst wait_for_rate_limit.simps, cases "check_rate_limit cfg w") auto

lemma check_fail_unchanged:
  assumes "\<not> fst (check_rate_limit cfg w)" and "0 < rate_limit cfg"
  shows "snd (check_rate_limit cfg w) = w" and "now w - last_reset_time w < 60"
    and "rate_limit cfg \<le> message_count w"
  using assms by (auto simp: check_rate_limit_def Let_def split: if_splits)

lemma check_pass_props:
  assumes "fst (check_rate_limit cfg w)"
  shows "posts (snd (check_rate_limit cfg w)) = posts w"
    and "reports (snd (check_rate_limit cfg w)) = reports w"
    and "polls (snd (check_rate_limit cfg w)) = polls w"
    and "now (snd (check_rate_limit cfg w)) = now w"
    and "message_count (snd (check_rate_limit cfg w)) < rate_limit cfg"
    and "message_count (snd (check_rate_limit cfg w)) = message_count w
         \<or> message_count (snd (check_rate_limit cfg w)) = 0"
  using assms by (auto simp: check_rate_limit_def Let_def split: if_splits)

lemma wait_returns:
  assumes "0 < rate_limit cfg"
  shows "\<exists>w'. wait_for_rate_limit cfg w = Some w' \<and> posts w' = posts w \<and> reports w' = reports w
           \<and> message_count w' < rate_limit cfg
           \<and> (message_count w' = message_count w \<or> message_count w' = 0)"
proof (induction "nat \<lceil>last_reset_time w + 60 - now w\<rceil>" arbitrary: w rule: less_induct)
  case less
  show ?case
  proof (cases "fst (check_rate_limit cfg w)")
    case True
    then show ?thesis
      using wait_pass [OF True] check_pass_props [OF True] by simp
  next
    case False
    note fl = check_fail_unchanged [OF False assms]
    let ?w = "sleep 1 (w\<lparr>polls := polls w + 1\<rparr>)"
    have step: "wait_for_rate_limit cfg w = wait_for_rate_limit cfg ?w"
      using False fl(1) by (subst wait_for_rate_limit.simps, cases "check_rate_limit cfg w") auto
    have "nat \<lceil>last_reset_time ?w + 60 - now ?w\<rceil> < nat \<lceil>last_reset_time w + 60 - now w\<rceil>"
      using fl(2) by (simp add: sleep_def) linarith
    from less [OF this] obtain w' where
      "wait_for_rate_limit cfg ?w = Some w'" "posts w' = posts ?w" "reports w' = reports ?w"
      "message_count w' < rate_limit cfg"
      "message_count w' = message_count ?w \<or> message_count w' = 0"
      by blast
    then show ?thesis using step by (simp add: sleep_def)
  qed
qed

declare send_message.simps [simp del]

lemma send_message_returns:
  assumes "0 < rate_limit cfg"
  shows "\<exists>k resp w'. send_message cfg tr ph msg img rc w = Some (resp, w')
           \<and> 1 \<le> k \<and> k \<le> nat (max_retries cfg - rc) + 1
           \<and> posts w' = posts w @ replicate k (make_payload ph msg img)
           \<and> reports w' = reports w
           \<and> resp = outcome ph (tr (length (posts w) + k - 1) (make_payload ph msg img))
           \<and> (\<forall>j<k - 1. \<not> succeeded (tr (length (posts w) + j) (make_payload ph msg img)))
           \<and> (\<not> succeeded (tr (length (posts w) + k - 1) (make_payload ph msg img))
                \<longrightarrow> k = nat (max_retries cfg - rc) + 1)"
proof (induction "nat (max_retries cfg - rc)" arbitrary: rc w rule: less_induct)
  case less
  let ?pl = "make_payload ph msg img"
  from wait_returns [OF assms, of w] obtain w1 where
    w1: "wait_for_rate_limit cfg w = Some w1" "posts w1 = posts w" "reports w1 = reports w"
    by blast
  let ?w2 = "w1\<lparr>posts := posts w1 @ [?pl]\<rparr>"
  let ?r = "tr (length (posts w)) ?pl"
  show ?case
  proof (cases "succeeded ?r")
    case True
    then obtain body where r: "?r = Response 200 body"
      by (auto simp: succeeded_def split: http_result.splits)
    have "send_message cfg tr ph msg img rc w
            = Some (body, ?w2\<lparr>message_count := message_count ?w2 + 1\<rparr>)"
      using w1 r by (subst send_message.simps) (simp add: Let_def)
    then show ?thesis
      using w1 r True by (intro exI [of _ 1]) (simp add: outcome_def)
  next
    case False
    show ?thesis
    proof (cases "rc < max_retries cfg")
      case retry: True
      let ?w3 = "sleep (real (retry_delay cfg)) ?w2"
      have eq: "send_message cfg tr ph msg img rc w = send_message cfg tr ph msg img (rc + 1) ?w3"
        using w1 False retry
        by (subst send_message.simps) (auto simp: Let_def succeeded_def split: http_result.splits)
      have "nat (max_retries cfg - (rc + 1)) < nat (max_retries cfg - rc)"
        using retry by simp
      from less [OF this, of ?w3] obtain k resp w' where
        k: "send_message cfg tr ph msg img (rc + 1) ?w3 = Some (resp, w')"
           "1 \<le> k" "k \<le> nat (max_retries cfg - (rc + 1)) + 1"
           "posts w' = posts ?w3 @ replicate k ?pl"
           "reports w' = reports ?w3"
           "resp = outcome ph (tr (length (posts ?w3) + k - 1) ?pl)"
           "\<forall>j<k - 1. \<not> succeeded (tr (length (posts ?w3) + j) ?pl)"
           "\<not> succeeded (tr (length (posts ?w3) + k - 1) ?pl)
              \<longrightarrow> k = nat (max_retries cfg - (rc + 1)) + 1"
        by blast
      have p3: "posts ?w3 = posts w @ [?pl]" "reports ?w3 = reports w"
        using w1 by (simp_all add: sleep_def)
      have len: "length (posts ?w3) = length (posts w) + 1"
        using p3 by simp
      have n: "nat (max_retries cfg - (rc + 1)) + 1 = nat (max_retries cfg - rc)"
        using retry by simp
      have before: "\<forall>j<Suc k - 1. \<not> succeeded (tr (length (posts w) + j) ?pl)"
      proof (intro allI impI)
        fix j assume j: "j < Suc k - 1"
        show "\<not> succeeded (tr (length (posts w) + j) ?pl)"
        proof (cases j)
          case 0
          then show ?thesis using False by simp
        next
          case (Suc i)
          then have "i < k - 1" using j by simp
          then show ?thesis using k(7) Suc len by simp
        qed
      qed
      show ?thesis
        apply (intro exI [of _ "Suc k"] exI [of _ resp] exI [of _ w'])
        using k eq p3 len n before
        by (simp add: replicate_app_Cons_same)
    next
      case stop: False
      have "send_message cfg tr ph msg img rc w = Some (outcome ph ?r, ?w2)"
        using w1 False stop
        by (subst send_message.simps) (auto simp: Let_def succeeded_def outcome_def split: http_result.splits)
      then show ?thesis
        using w1 False stop by (intro exI [of _ 1]) simp
    qed
  qed
qed

lemma outcome_failed:
  "\<not> succeeded r \<Longrightarrow> map_of (outcome ph r) ''error'' = Some (PStr (error_text ph r))"
  by (auto simp: succeeded_def outcome_def error_text_def split: http_result.splits)

subsection \<open>Retries\<close>

text \<open>
  Claim C2, as stated, at its own example: against a transport that answers 500 every
  time, with \<open>MAX_RETRIES = 3\<close>, \<open>send_message\<close> posts four times, not three.
\<close>

theorem send_message_attempts_C2_counterexample:
  "map_option (length \<circ> posts \<circ> snd)
     (send_message \<lparr>max_retries = 3, retry_delay = 5, rate_limit = 20\<rparr>
        (\<lambda>k p. Response 500 []) ''15550001111'' ''hello'' None 0 (init_world 0))
   = Some 4
   \<and> map_option (length \<circ> posts \<circ> snd)
     (send_message \<lparr>max_retries = 3, retry_delay = 5, rate_limit = 20\<rparr>
        (\<lambda>k p. Response 500 []) ''15550001111'' ''hello'' None 0 (init_world 0))
   \<noteq> Some 3"
  by code_simp

text \<open>
  Claim C2, amended. Against a transport that fails on every attempt, \<open>send_message\<close>
  called with \<open>retry_count = 0\<close> returns, having posted the same payload
  \<open>MAX_RETRIES + 1\<close> times (the first attempt and \<open>MAX_RETRIES\<close> retries: four times
  for the configured 3); the dictionary it returns carries under \<open>error\<close> the text built
  from the last attempt's result, and the loop of \<open>send_bulk_messages\<close> counts the
  contact as failed with that text.
\<close>

theorem send_message_attempts_C2:
  assumes "\<forall>k p. \<not> succeeded (tr k p)"
    and "0 < rate_limit cfg"
    and "0 \<le> max_retries cfg"
    and "py_format t c = Inr msg"
    and "map_of c ''phone_number'' = Some ph"
  shows "\<exists>resp w'. send_message cfg tr ph msg img 0 w = Some (resp, w')
           \<and> posts w' = posts w @ replicate (nat (max_retries cfg) + 1) (make_payload ph msg img)
           \<and> map_of resp ''error''
               = Some (PStr (error_text ph
                   (tr (length (posts w) + nat (max_retries cfg)) (make_payload ph msg img))))
           \<and> process_contact cfg tr t img None n i c r w
               = Some (record_failure c
                   (PStr (error_text ph
                      (tr (length (posts w) + nat (max_retries cfg)) (make_payload ph msg img))))
                   r, w')"
proof -
  let ?pl = "make_payload ph msg img"
  from send_message_returns [OF assms(2), of tr ph msg img 0 w] obtain k resp w' where
    k: "send_message cfg tr ph msg img 0 w = Some (resp, w')"
       "posts w' = posts w @ replicate k ?pl"
       "resp = outcome ph (tr (length (posts w) + k - 1) ?pl)"
       "\<not> succeeded (tr (length (posts w) + k - 1) ?pl) \<longrightarrow> k = nat (max_retries cfg - 0) + 1"
    by blast
  have kk: "k = nat (max_retries cfg) + 1"
    using k(4) assms(1) by simp
  have err: "map_of resp ''error''
          = Some (PStr (error_text ph (tr (length (posts w) + nat (max_retries cfg)) ?pl)))"
    using k(3) kk assms(1) by (simp add: outcome_failed)
  have "process_contact cfg tr t img None n i c r w
          = Some (record_failure c
              (PStr (error_text ph (tr (length (posts w) + nat (max_retries cfg)) ?pl))) r, w')"
    using assms(4,5) k(1) err
    by (simp add: process_contact_def update_results_def report_progress_def)
  with k(1,2) kk err show ?thesis by simp
qed

theorem send_message_attempts_C2_witness:
  "(\<forall>k p. \<not> succeeded ((\<lambda>k p. Response 500 []) k p))
   \<and> 0 < rate_limit \<lparr>max_retries = 3, retry_delay = 5, rate_limit = 20\<rparr>
   \<and> 0 \<le> max_retries \<lparr>max_retries = 3, retry_delay = 5, rate_limit = 20\<rparr>
   \<and> py_format ''hello'' [(''phone_number'', ''15550001111'')] = Inr ''hello''
   \<and> map_of [(''phone_number'', ''15550001111'')] ''phone_number'' = Some ''15550001111''
   \<and> (\<exists>resp w'.
         send_message \<lparr>max_retries = 3, retry_delay = 5, rate_limit = 20\<rparr>
           (\<lambda>k p. Response 500 []) ''15550001111'' ''hello'' None 0 (init_world 0) = Some (resp, w')
         \<and> posts w' = replicate 4 (TextMessage ''15550001111'' ''hello'')
         \<and> map_of resp ''error''
             = Some (PStr ''Failed to send message to 15550001111. Status: 500'')
         \<and> process_contact \<lparr>max_retries = 3, retry_delay = 5, rate_limit = 20\<rparr>
             (\<lambda>k p. Response 500 []) ''hello'' None None 1 0 [(''phone_number'', ''15550001111'')]
             \<lparr>total = 1, successful = 0, failed = 0, failures = []\<rparr> (init_world 0)
           = Some (\<lparr>total = 1, successful = 0, failed = 1,
                     failures = [([(''phone_number'', ''15550001111'')],
                        PStr ''Failed to send message to 15550001111. Status: 500'')]\<rparr>, w'))"
proof -
  have a: "\<forall>k p. \<not> succeeded ((\<lambda>k p. Response 500 []) k p)"
    by (simp add: succeeded_def)
  have b: "0 < rate_limit \<lparr>max_retries = 3, retry_delay = 5, rate_limit = 20\<rparr>"
    and c: "0 \<le> max_retries \<lparr>max_retries = 3, retry_delay = 5, rate_limit = 20\<rparr>"
    by simp_all
  have d: "py_format ''hello'' [(''phone_number'', ''15550001111'')] = Inr ''hello''"
    by code_simp
  have e: "map_of [(''phone_number'', ''15550001111'')] ''phone_number'' = Some ''15550001111''"
    by simp
  have f: "error_text ''15550001111'' (Response 500 [])
             = ''Failed to send message to 15550001111. Status: 500''"
    by code_simp
  from send_message_attempts_C2 [OF a b c d e, of None "init_world 0" 1 0
         "\<lparr>total = 1, successful = 0, failed = 0, failures = []\<rparr>"]
  show ?thesis
    using a d by (simp add: init_world_def make_payload_def f record_failure_def)
qed

subsection \<open>What counts as a success\<close>




subsection \<open>The rate window\<close>

text \<open>
  Claim C5, as stated, fails: \<open>_check_rate_limit\<close> does not count its own calls, so
  with a cap of 2 three calls in a row within one window all yield \<open>True\<close>.
\<close>

theorem check_rate_limit_window_C5_counterexample:
  "map fst
     [check_rate_limit \<lparr>max_retries = 3, retry_delay = 5, rate_limit = 2\<rparr> (init_world 0),
      check_rate_limit \<lparr>max_retries = 3, retry_delay = 5, rate_limit = 2\<rparr>
        (snd (check_rate_limit \<lparr>max_retries = 3, retry_delay = 5, rate_limit = 2\<rparr> (init_world 0))),
      check_rate_limit \<lparr>max_retries = 3, retry_delay = 5, rate_limit = 2\<rparr>
        (snd (check_rate_limit \<lparr>max_retries = 3, retry_delay = 5, rate_limit = 2\<rparr>
           (snd (check_rate_limit \<lparr>max_retries = 3, retry_delay = 5, rate_limit = 2\<rparr>
              (init_world 0)))))]
   = [True, True, True]"
  by (simp add: check_rate_limit_def init_world_def Let_def)

text \<open>
  Claim C5, amended. With a cap of 2: less than 60 seconds after the window's start,
  \<open>_check_rate_limit\<close> yields \<open>True\<close> exactly when fewer than 2 sends have been counted
  in the window, and changes nothing (the count grows only where \<open>send_message\<close> gets
  status 200); 60 seconds or more after the window's start, the call sets the count to
  0, restarts the window at the current time, and yields \<open>True\<close>.
\<close>

theorem check_rate_limit_window_C5:
  assumes "rate_limit cfg = 2"
  shows "(now w - last_reset_time w < 60 \<longrightarrow>
            check_rate_limit cfg w = (message_count w < 2, w))
       \<and> (now w - last_reset_time w \<ge> 60 \<longrightarrow>
            check_rate_limit cfg w
              = (True, w\<lparr>message_count := 0, last_reset_time := now w\<rparr>))"
  using assms by (auto simp: check_rate_limit_def Let_def)

theorem check_rate_limit_window_C5_witness:
  "rate_limit \<lparr>max_retries = 3, retry_delay = 5, rate_limit = 2\<rparr> = 2
   \<and> check_rate_limit \<lparr>max_retries = 3, retry_delay = 5, rate_limit = 2\<rparr>
        \<lparr>message_count = 1, last_reset_time = 0, now = 30, posts = [], polls = 0, reports = []\<rparr>
      = (True, \<lparr>message_count = 1, last_reset_time = 0, now = 30, posts = [], polls = 0, reports = []\<rparr>)
   \<and> check_rate_limit \<lparr>max_retries = 3, retry_delay = 5, rate_limit = 2\<rparr>
        \<lparr>message_count = 2, last_reset_time = 0, now = 30, posts = [], polls = 0, reports = []\<rparr>
      = (False, \<lparr>message_count = 2, last_reset_time = 0, now = 30, posts = [], polls = 0, reports = []\<rparr>)
   \<and> check_rate_limit \<lparr>max_retries = 3, retry_delay = 5, rate_limit = 2\<rparr>
        \<lparr>message_count = 2, last_reset_time = 0, now = 60, posts = [], polls = 0, reports = []\<rparr>
      = (True, \<lparr>message_count = 0, last_reset_time = 60, now = 60, posts = [], polls = 0, reports = []\<rparr>)"
  using check_rate_limit_window_C5 [of "\<lparr>max_retries = 3, retry_delay = 5, rate_limit = 2\<rparr>"
          "\<lparr>message_count = 1, last_reset_time = 0, now = 30, posts = [], polls = 0, reports = []\<rparr>"]
        check_rate_limit_window_C5 [of "\<lparr>max_retries = 3, retry_delay = 5, rate_limit = 2\<rparr>"
          "\<lparr>message_count = 2, last_reset_time = 0, now = 30, posts = [], polls = 0, reports = []\<rparr>"]
        check_rate_limit_window_C5 [of "\<lparr>max_retries = 3, retry_delay = 5, rate_limit = 2\<rparr>"
          "\<lparr>message_count = 2, last_reset_time = 0, now = 60, posts = [], polls = 0, reports = []\<rparr>"]
  by simp

subsection \<open>Counting in the loop of \<open>send_bulk_messages\<close>\<close>

lemma check_reports: "reports (snd (check_rate_limit cfg w)) = reports w"
  by (simp add: check_rate_limit_def Let_def)

lemma wait_reports:
  assumes "wait_for_rate_limit cfg w = Some w'"
  shows "reports w' = reports w"
proof (rule wait_for_rate_limit.raw_induct
    [where P = "\<lambda>c v y. reports y = reports v" and cfg = cfg and w = w and y = w'])
  show "wait_for_rate_limit cfg w = Some w'" by fact
next
  fix f c v y
  assume IH: "\<And>c v y. f c v = Some y \<Longrightarrow> reports y = reports v"
    and eq: "(case check_rate_limit c v of
                (ok, w1) \<Rightarrow> if ok then Some w1
                            else f c (sleep 1 (w1\<lparr>polls := polls w1 + 1\<rparr>))) = Some y"
  show "reports y = reports v"
  proof (cases "check_rate_limit c v")
    case (Pair ok w1)
    then have r: "reports w1 = reports v"
      using check_reports [of c v] by simp
    show ?thesis
    proof (cases ok)
      case True
      then show ?thesis using eq Pair r by simp
    next
      case False
      then have "f c (sleep 1 (w1\<lparr>polls := polls w1 + 1\<rparr>)) = Some y"
        using eq Pair by simp
      from IH [OF this] show ?thesis using r by (simp add: sleep_def)
    qed
  qed
qed

lemma send_message_reports:
  "send_message cfg tr ph msg img rc w = Some (resp, w') \<Longrightarrow> reports w' = reports w"
proof (induction cfg tr ph msg img rc w rule: send_message.induct)
  case (1 cfg tr ph msg img rc w)
  from "1.prems" obtain w1 where w1: "wait_for_rate_limit cfg w = Some w1"
    by (subst (asm) send_message.simps) (auto split: option.splits)
  then have r1: "reports w1 = reports w" by (rule wait_reports)
  let ?pl = "make_payload ph msg img"
  let ?w2 = "w1\<lparr>posts := posts w1 @ [?pl]\<rparr>"
  show ?case
  proof (cases "tr (length (posts w1)) ?pl")
    case (Response code body)
    show ?thesis
    proof (cases "code = 200")
      case True
      then show ?thesis
        using "1.prems" w1 Response r1
        by (subst (asm) send_message.simps) (auto simp: Let_def)
    next
      case False
      show ?thesis
      proof (cases "rc < max_retries cfg")
        case True
        have "send_message cfg tr ph msg img (rc + 1) (sleep (real (retry_delay cfg)) ?w2)
                = Some (resp, w')"
          using "1.prems" w1 Response False True
          by (subst (asm) send_message.simps) (simp add: Let_def)
        from "1.IH"(1) [OF w1 refl refl Response False True this]
        show ?thesis using r1 by (simp add: sleep_def)
      next
        case stop: False
        then show ?thesis
          using "1.prems" w1 Response False r1
          by (subst (asm) send_message.simps) (auto simp: Let_def)
      qed
    qed
  next
    case (RequestException e)
    show ?thesis
    proof (cases "rc < max_retries cfg")
      case True
      have "send_message cfg tr ph msg img (rc + 1) (sleep (real (retry_delay cfg)) ?w2)
              = Some (resp, w')"
        using "1.prems" w1 RequestException True
        by (subst (asm) send_message.simps) (simp add: Let_def)
      from "1.IH"(2) [OF w1 refl refl RequestException True this]
      show ?thesis using r1 by (simp add: sleep_def)
    next
      case False
      then show ?thesis
        using "1.prems" w1 RequestException r1
        by (subst (asm) send_message.simps) (auto simp: Let_def)
    qed
  qed
qed

lemma callback_errors_append:
  "callback_errors cb (xs @ ys) = callback_errors cb xs + callback_errors cb ys"
  by (simp add: callback_errors_def split: option.splits)

lemma update_results_counts:
  "total (update_results c resp r) = total r"
  "successful (update_results c resp r) + failed (update_results c resp r)
     = successful r + failed r + 1"
  by (auto simp: update_results_def record_failure_def split: option.splits)

lemma report_progress_counts:
  assumes "report_progress cb n i c r w = (r1, w1)" and "0 < n"
  shows "total r1 = total r
       \<and> (\<exists>new. reports w1 = reports w @ new
             \<and> successful r1 + failed r1
                 = successful r + failed r + int (callback_errors cb new))"
proof (cases cb)
  case None
  then show ?thesis
    using assms by (auto simp: report_progress_def callback_errors_def)
next
  case (Some f)
  show ?thesis
  proof (cases "f (progress_percent n i) r")
    case None
    then have "r1 = r" "w1 = w\<lparr>reports := reports w @ [(progress_percent n i, r)]\<rparr>"
      using assms Some by (auto simp: report_progress_def Let_def)
    then show ?thesis
      using None Some by (simp add: callback_errors_def)
  next
    case (Some e)
    then have "r1 = record_failure c (PStr (py_str e)) r"
      "w1 = w\<lparr>reports := reports w @ [(progress_percent n i, r)]\<rparr>"
      using assms \<open>cb = Some f\<close> by (auto simp: report_progress_def Let_def)
    then show ?thesis
      using Some \<open>cb = Some f\<close> by (simp add: callback_errors_def record_failure_def)
  qed
qed

lemma process_contact_counts:
  assumes "process_contact cfg tr t img cb n i c r w = Some (r1, w1)" and "0 < n"
  shows "total r1 = total r
       \<and> (\<exists>new. reports w1 = reports w @ new
             \<and> successful r1 + failed r1
                 = successful r + failed r + 1 + int (callback_errors cb new))"
proof (cases "py_format t c")
  case (Inl e)
  then have "r1 = record_failure c (PStr (py_str e)) r" "w1 = w"
    using assms by (simp_all add: process_contact_def)
  then show ?thesis
    by (simp add: record_failure_def callback_errors_def split: option.splits)
next
  case (Inr m)
  show ?thesis
  proof (cases "map_of c ''phone_number''")
    case None
    then have "r1 = record_failure c (PStr (py_str (KeyError ''phone_number''))) r" "w1 = w"
      using assms Inr by (simp_all add: process_contact_def)
    then show ?thesis
      by (simp add: record_failure_def callback_errors_def split: option.splits)
  next
    case (Some ph)
    from assms Inr Some obtain resp w0 where
      s: "send_message cfg tr ph m img 0 w = Some (resp, w0)"
      and rp: "report_progress cb n i c (update_results c resp r) w0 = (r1, w1)"
      by (auto simp: process_contact_def split: option.splits)
    from s have rep: "reports w0 = reports w" by (rule send_message_reports)
    from report_progress_counts [OF rp assms(2)] show ?thesis
      using rep by (simp add: update_results_counts)
  qed
qed

lemma bulk_loop_counts:
  assumes "bulk_loop cfg tr t img cb n i cs r w = Some (r', w')" and "0 < n"
  shows "total r' = total r
       \<and> (\<exists>new. reports w' = reports w @ new
             \<and> successful r' + failed r'
                 = successful r + failed r + int (length cs) + int (callback_errors cb new))"
  using assms(1)
proof (induction cs arbitrary: i r w)
  case Nil
  then show ?case by (simp add: callback_errors_def split: option.splits)
next
  case (Cons c cs)
  from Cons.prems obtain r1 w1 where
    p: "process_contact cfg tr t img cb n i c r w = Some (r1, w1)"
    and l: "bulk_loop cfg tr t img cb n (i + 1) cs r1 w1 = Some (r', w')"
    by (auto split: option.splits)
  from process_contact_counts [OF p assms(2)] obtain new1 where
    a: "total r1 = total r" "reports w1 = reports w @ new1"
       "successful r1 + failed r1 = successful r + failed r + 1 + int (callback_errors cb new1)"
    by blast
  from Cons.IH [OF l] obtain new2 where
    b: "total r' = total r1" "reports w' = reports w1 @ new2"
       "successful r' + failed r'
          = successful r1 + failed r1 + int (length cs) + int (callback_errors cb new2)"
    by blast
  show ?case
    using a b by (intro conjI exI [of _ "new1 @ new2"]) (simp_all add: callback_errors_append)
qed

lemma send_bulk_messages_counts:
  assumes "send_bulk_messages cfg tr cs t img cb w = Some (r, w')"
  shows "total r = int (length cs)
       \<and> (\<exists>new. reports w' = reports w @ new
             \<and> successful r + failed r = total r + int (callback_errors cb new))"
proof (cases cs)
  case Nil
  then have "r = \<lparr>total = 0, successful = 0, failed = 0, failures = []\<rparr>" "w' = w"
    using assms by (auto simp: send_bulk_messages_def)
  then show ?thesis
    using Nil by (simp add: callback_errors_def split: option.splits)
next
  case (Cons c rest)
  then have "0 < length cs" by simp
  from bulk_loop_counts [OF assms [unfolded send_bulk_messages_def] this]
  show ?thesis by simp
qed

subsection \<open>The summary of \<open>send_bulk_messages\<close>\<close>

text \<open>
  Claim C7. For an empty contact list \<open>send_bulk_messages\<close> returns the summary with
  \<open>total\<close>, \<open>successful\<close> and \<open>failed\<close> all 0 and no failures, and leaves the state as it
  was: nothing is posted and the log of callback invocations is untouched, so the
  callback is never called and the percentage is never computed.
\<close>

theorem send_bulk_messages_empty_C7:
  "send_bulk_messages cfg tr [] t img cb w
     = Some (\<lparr>total = 0, successful = 0, failed = 0, failures = []\<rparr>, w)"
  by (simp add: send_bulk_messages_def)

text \<open>
  Claim C1 at an input where the code breaks it. One contact, a transport that answers
  200, and a progress callback that raises: the contact has been counted as successful
  when the callback is called, and the \<open>except\<close> block then counts it as failed too.
  The summary has \<open>total = 1\<close> and \<open>successful + failed = 2\<close>. (Lemma
  \<open>send_bulk_messages_counts\<close> gives the general law: \<open>successful + failed\<close> is
  \<open>total\<close> plus the number of callback invocations that raised.)
\<close>

theorem send_bulk_messages_double_count_C1:
  "map_option ((\<lambda>r. (total r, successful r, failed r)) \<circ> fst)
     (send_bulk_messages \<lparr>max_retries = 3, retry_delay = 5, rate_limit = 20\<rparr>
        (\<lambda>k p. Response 200 []) [[(''phone_number'', ''15550001111'')]] ''Hi'' None
        (Some (\<lambda>p s. Some (Raised ''boom''))) (init_world 0))
   = Some (1, 1, 1)"
  by code_simp

text \<open>
  Progress reports when nothing raises: every contact renders and has a phone number,
  and the callback returns. Then the callback is called once per contact, in input
  order, with the percentages \<open>(index + 1) / n * 100\<close>, and the summary it sees at index
  \<open>j\<close> has \<open>successful + failed = j + 1\<close>.
\<close>

lemma process_contact_reports:
  assumes "0 < rate_limit cfg"
    and "\<not> isl (py_format t c)" and "map_of c ''phone_number'' \<noteq> None"
    and "\<forall>p s. f p s = None" and "0 < n"
  shows "\<exists>r1 w0. process_contact cfg tr t img (Some f) n i c r w
            = Some (r1, w0\<lparr>reports := reports w @ [(progress_percent n i, r1)]\<rparr>)
          \<and> total r1 = total r
          \<and> successful r1 + failed r1 = successful r + failed r + 1"
proof -
  from assms(2) obtain m where m: "py_format t c = Inr m"
    by (cases "py_format t c") auto
  from assms(3) obtain ph where ph: "map_of c ''phone_number'' = Some ph"
    by auto
  from send_message_returns [OF assms(1), of tr ph m img 0 w] obtain resp w0 where
    s: "send_message cfg tr ph m img 0 w = Some (resp, w0)" "reports w0 = reports w"
    by blast
  have "process_contact cfg tr t img (Some f) n i c r w
          = Some (update_results c resp r,
                  w0\<lparr>reports := reports w @ [(progress_percent n i, update_results c resp r)]\<rparr>)"
    using m ph s assms(4,5) by (simp add: process_contact_def report_progress_def Let_def)
  then show ?thesis
    using update_results_counts [of c resp r] by blast
qed

lemma bulk_loop_reports:
  assumes "0 < rate_limit cfg"
    and "\<forall>c \<in> set cs. \<not> isl (py_format t c) \<and> map_of c ''phone_number'' \<noteq> None"
    and "\<forall>p s. f p s = None" and "0 < n"
  shows "\<exists>r' w' new. bulk_loop cfg tr t img (Some f) n i cs r w = Some (r', w')
           \<and> reports w' = reports w @ new
           \<and> map fst new = map (progress_percent n) [i..<i + length cs]
           \<and> map (\<lambda>(p, s). successful s + failed s) new
               = map (\<lambda>j. successful r + failed r + int (j - i) + 1) [i..<i + length cs]
           \<and> (\<forall>(p, s) \<in> set new. total s = total r)"
  using assms(2)
proof (induction cs arbitrary: i r w)
  case Nil
  then show ?case by simp
next
  case (Cons c cs)
  have "\<not> isl (py_format t c)" "map_of c ''phone_number'' \<noteq> None"
    using Cons.prems by simp_all
  from process_contact_reports [OF assms(1) this assms(3,4), of tr img i r w] obtain r1 w0 where
    p: "process_contact cfg tr t img (Some f) n i c r w
          = Some (r1, w0\<lparr>reports := reports w @ [(progress_percent n i, r1)]\<rparr>)"
       "total r1 = total r"
       "successful r1 + failed r1 = successful r + failed r + 1"
    by blast
  let ?w1 = "w0\<lparr>reports := reports w @ [(progress_percent n i, r1)]\<rparr>"
  have rest: "\<forall>c \<in> set cs. \<not> isl (py_format t c) \<and> map_of c ''phone_number'' \<noteq> None"
    using Cons.prems by simp
  from Cons.IH [OF rest, of "i + 1" r1 ?w1] obtain r' w' new where
    l: "bulk_loop cfg tr t img (Some f) n (i + 1) cs r1 ?w1 = Some (r', w')"
       "reports w' = reports ?w1 @ new"
       "map fst new = map (progress_percent n) [i + 1..<i + 1 + length cs]"
       "map (\<lambda>(p, s). successful s + failed s) new
          = map (\<lambda>j. successful r1 + failed r1 + int (j - (i + 1)) + 1) [i + 1..<i + 1 + length cs]"
       "\<forall>(p, s) \<in> set new. total s = total r1"
    by blast
  have up: "[i..<i + length (c # cs)] = i # [i + 1..<i + 1 + length cs]"
    by (simp add: upt_rec)
  have sf: "map (\<lambda>j. successful r1 + failed r1 + int (j - (i + 1)) + 1) [i + 1..<i + 1 + length cs]
          = map (\<lambda>j. successful r + failed r + int (j - i) + 1) [i + 1..<i + 1 + length cs]"
    using p(3) by (auto simp: of_nat_diff)
  show ?case
    apply (intro exI [of _ r'] exI [of _ w'] exI [of _ "(progress_percent n i, r1) # new"])
    using p l(1,2,3,5) l(4) [unfolded sf] unfolding up
    by simp
qed

lemma progress_percent_mono:
  "0 < n \<Longrightarrow> i < j \<Longrightarrow> progress_percent n i < progress_percent n j"
  by (simp add: progress_percent_def divide_strict_right_mono)

lemma progress_percent_last:
  "0 < n \<Longrightarrow> progress_percent n (n - 1) = 100"
  by (simp add: progress_percent_def of_nat_diff)

lemma send_bulk_messages_reports:
  assumes "0 < rate_limit cfg"
    and "\<forall>c \<in> set cs. \<not> isl (py_format t c) \<and> map_of c ''phone_number'' \<noteq> None"
    and "\<forall>p s. f p s = None"
  shows "\<exists>r' w' new. send_bulk_messages cfg tr cs t img (Some f) w = Some (r', w')
           \<and> reports w' = reports w @ new
           \<and> map fst new = map (progress_percent (length cs)) [0..<length cs]
           \<and> map (\<lambda>(p, s). successful s + failed s) new = map (\<lambda>j. int j + 1) [0..<length cs]
           \<and> (\<forall>(p, s) \<in> set new. total s = int (length cs))"
proof (cases cs)
  case Nil
  then show ?thesis by (simp add: send_bulk_messages_def)
next
  case (Cons c rest)
  then have "0 < length cs" by simp
  from bulk_loop_reports [OF assms this, of tr img 0
      "\<lparr>total = int (length cs), successful = 0, failed = 0, failures = []\<rparr>" w]
  show ?thesis by (simp add: send_bulk_messages_def)
qed

text \<open>
  Claim C3 at an input where the code breaks it. Two contacts, the second without the
  field \<open>name\<close> that the template uses, a callback that never raises: rendering fails for
  the second contact, the \<open>except\<close> block counts the failure, and the callback inside
  the \<open>try\<close> block is skipped. The callback is invoked once, with 50, and never with 100.
\<close>

theorem send_bulk_messages_progress_skipped_C3:
  "map_option (reports \<circ> snd)
     (send_bulk_messages \<lparr>max_retries = 3, retry_delay = 5, rate_limit = 20\<rparr>
        (\<lambda>k p. Response 200 [])
        [[(''phone_number'', ''15550001111''), (''name'', ''Ann'')],
         [(''phone_number'', ''15550002222'')]]
        ''Hi {name}'' None (Some (\<lambda>p s. None)) (init_world 0))
   = Some [(50, \<lparr>total = 2, successful = 1, failed = 0, failures = []\<rparr>)]"
  by code_simp

subsection \<open>A callback that raises\<close>

lemma callback_errors_pos:
  "(p, s) \<in> set new \<Longrightarrow> f p s \<noteq> None \<Longrightarrow> 0 < callback_errors (Some f) new"
  by (auto simp: callback_errors_def filter_empty_conv)

text \<open>
  Claim C10. When the send for a contact succeeded (the response has no key \<open>error\<close>,
  so the contact is counted as successful) and the progress callback then raises,
  the loop goes on to the next contact with that contact counted as failed as well,
  its failure entry carrying the \<open>str\<close> of the exception. Whenever a run of
  \<open>send_bulk_messages\<close> returns and some callback invocation of that run raised,
  \<open>successful + failed\<close> exceeds \<open>total\<close>.
\<close>

theorem callback_error_double_count_C10:
  assumes "py_format t c = Inr m"
    and "map_of c ''phone_number'' = Some ph"
    and "send_message cfg tr ph m img 0 w = Some (resp, w1)"
    and "map_of resp ''error'' = None"
    and "0 < n"
    and "f (progress_percent n i) (r\<lparr>successful := successful r + 1\<rparr>) = Some e"
  shows "bulk_loop cfg tr t img (Some f) n i (c # rest) r w
           = bulk_loop cfg tr t img (Some f) n (i + 1) rest
               (r\<lparr>successful := successful r + 1, failed := failed r + 1,
                  failures := failures r @ [(c, PStr (py_str e))]\<rparr>)
               (w1\<lparr>reports := reports w1
                      @ [(progress_percent n i, r\<lparr>successful := successful r + 1\<rparr>)]\<rparr>)
       \<and> (\<forall>cs w0 rf wf.
             send_bulk_messages cfg tr cs t img (Some f) w0 = Some (rf, wf)
             \<longrightarrow> (\<exists>p s. (p, s) \<in> set (drop (length (reports w0)) (reports wf)) \<and> f p s \<noteq> None)
             \<longrightarrow> total rf < successful rf + failed rf)"
proof -
  have "process_contact cfg tr t img (Some f) n i c r w
          = Some (r\<lparr>successful := successful r + 1, failed := failed r + 1,
                    failures := failures r @ [(c, PStr (py_str e))]\<rparr>,
                  w1\<lparr>reports := reports w1
                      @ [(progress_percent n i, r\<lparr>successful := successful r + 1\<rparr>)]\<rparr>)"
    using assms
    by (simp add: process_contact_def update_results_def report_progress_def Let_def
        record_failure_def)
  then have step: "bulk_loop cfg tr t img (Some f) n i (c # rest) r w
           = bulk_loop cfg tr t img (Some f) n (i + 1) rest
               (r\<lparr>successful := successful r + 1, failed := failed r + 1,
                  failures := failures r @ [(c, PStr (py_str e))]\<rparr>)
               (w1\<lparr>reports := reports w1
                      @ [(progress_percent n i, r\<lparr>successful := successful r + 1\<rparr>)]\<rparr>)"
    by simp
  have final: "total rf < successful rf + failed rf"
    if run: "send_bulk_messages cfg tr cs t img (Some f) w0 = Some (rf, wf)"
      and ex: "\<exists>p s. (p, s) \<in> set (drop (length (reports w0)) (reports wf)) \<and> f p s \<noteq> None"
    for cs w0 rf wf
  proof -
    from send_bulk_messages_counts [OF run] obtain new where
      n: "reports wf = reports w0 @ new"
         "successful rf + failed rf = total rf + int (callback_errors (Some f) new)"
      by blast
    from ex n(1) obtain p s where "(p, s) \<in> set new" "f p s \<noteq> None"
      by auto
    then have "0 < callback_errors (Some f) new"
      by (rule callback_errors_pos)
    with n(2) show ?thesis by simp
  qed
  from step final show ?thesis by blast
qed

theorem callback_error_double_count_C10_witness:
  "py_format ''Hi'' [(''phone_number'', ''15550001111'')] = Inr ''Hi''
   \<and> map_of [(''phone_number'', ''15550001111'')] ''phone_number'' = Some ''15550001111''
   \<and> send_message \<lparr>max_retries = 3, retry_delay = 5, rate_limit = 20\<rparr>
        (\<lambda>k p. Response 200 []) ''15550001111'' ''Hi'' None 0 (init_world 0)
      = Some ([], \<lparr>message_count = 1, last_reset_time = 0, now = 0,
                    posts = [TextMessage ''15550001111'' ''Hi''], polls = 0, reports = []\<rparr>)
   \<and> map_of ([] :: pydict) ''error'' = None
   \<and> (0::nat) < 1
   \<and> bulk_loop \<lparr>max_retries = 3, retry_delay = 5, rate_limit = 20\<rparr>
        (\<lambda>k p. Response 200 []) ''Hi'' None (Some (\<lambda>p s. Some (Raised ''boom''))) 1 0
        [[(''phone_number'', ''15550001111'')]]
        \<lparr>total = 1, successful = 0, failed = 0, failures = []\<rparr> (init_world 0)
      = Some (\<lparr>total = 1, successful = 1, failed = 1,
                failures = [([(''phone_number'', ''15550001111'')], PStr ''boom'')]\<rparr>,
              \<lparr>message_count = 1, last_reset_time = 0, now = 0,
                 posts = [TextMessage ''15550001111'' ''Hi''], polls = 0,
                 reports = [(100, \<lparr>total = 1, successful = 1, failed = 0, failures = []\<rparr>)]\<rparr>)
   \<and> send_bulk_messages \<lparr>max_retries = 3, retry_delay = 5, rate_limit = 20\<rparr>
        (\<lambda>k p. Response 200 []) [[(''phone_number'', ''15550001111'')]] ''Hi'' None
        (Some (\<lambda>p s. Some (Raised ''boom''))) (init_world 0)
      = Some (\<lparr>total = 1, successful = 1, failed = 1,
                failures = [([(''phone_number'', ''15550001111'')], PStr ''boom'')]\<rparr>,
              \<lparr>message_count = 1, last_reset_time = 0, now = 0,
                 posts = [TextMessage ''15550001111'' ''Hi''], polls = 0,
                 reports = [(100, \<lparr>total = 1, successful = 1, failed = 0, failures = []\<rparr>)]\<rparr>)
   \<and> total \<lparr>total = 1, successful = 1, failed = 1,
               failures = [([(''phone_number'', ''15550001111'')], PStr ''boom'')]\<rparr>
       < successful \<lparr>total = 1, successful = 1, failed = 1,
               failures = [([(''phone_number'', ''15550001111'')], PStr ''boom'')]\<rparr>
         + failed \<lparr>total = 1, successful = 1, failed = 1,
               failures = [([(''phone_number'', ''15550001111'')], PStr ''boom'')]\<rparr>"
proof -
  let ?cfg = "\<lparr>max_retries = 3, retry_delay = 5, rate_limit = 20\<rparr>"
  let ?c = "[(''phone_number'', ''15550001111'')]"
  let ?f = "\<lambda>(p::real) (s::results). Some (Raised ''boom'')"
  let ?r = "\<lparr>total = 1, successful = 0, failed = 0, failures = []\<rparr>"
  let ?w1 = "\<lparr>message_count = 1, last_reset_time = 0, now = 0,
               posts = [TextMessage ''15550001111'' ''Hi''], polls = 0, reports = []\<rparr>"
  let ?rf = "\<lparr>total = 1, successful = 1, failed = 1, failures = [(?c, PStr ''boom'')]\<rparr>"
  let ?wf = "\<lparr>message_count = 1, last_reset_time = 0, now = 0,
               posts = [TextMessage ''15550001111'' ''Hi''], polls = 0,
               reports = [(100, \<lparr>total = 1, successful = 1, failed = 0, failures = []\<rparr>)]\<rparr>"
  have a: "py_format ''Hi'' ?c = Inr ''Hi''" by code_simp
  have b: "map_of ?c ''phone_number'' = Some ''15550001111''" by simp
  have c: "send_message ?cfg (\<lambda>k p. Response 200 []) ''15550001111'' ''Hi'' None 0 (init_world 0)
             = Some ([], ?w1)"
    by code_simp
  have d: "map_of ([] :: pydict) ''error'' = None" by simp
  have n: "(0::nat) < 1" by simp
  note th = callback_error_double_count_C10
      [where f = "?f" and n = 1 and i = 0 and r = "?r" and e = "Raised ''boom''" and rest = "[]",
       OF a b c d n]
  have step: "bulk_loop ?cfg (\<lambda>k p. Response 200 []) ''Hi'' None (Some ?f) 1 0 [?c] ?r (init_world 0)
                = Some (?rf, ?wf)"
    using th [THEN conjunct1] by (simp add: progress_percent_def)
  have run: "send_bulk_messages ?cfg (\<lambda>k p. Response 200 []) [?c] ''Hi'' None (Some ?f) (init_world 0)
               = Some (?rf, ?wf)"
    using step by (simp add: send_bulk_messages_def)
  have ex: "\<exists>p s. (p, s) \<in> set (drop (length (reports (init_world 0))) (reports ?wf))
              \<and> ?f p s \<noteq> None"
    by (simp add: init_world_def)
  have "total ?rf < successful ?rf + failed ?rf"
    using th [THEN conjunct2, rule_format, OF _ run ex] by simp
  with a b c d step run show ?thesis by simp
qed

subsection \<open>A contact without a field of the template\<close>





subsection \<open>Failed attempts and the rate limiter\<close>

lemma check_passes_below_limit:
  assumes "0 \<le> message_count w" and "message_count w < rate_limit cfg"
  shows "fst (check_rate_limit cfg w)"
  using assms by (auto simp: check_rate_limit_def Let_def)

lemma send_message_all_fail:
  assumes "\<forall>k p. \<not> succeeded (tr k p)"
    and "0 \<le> message_count w" and "message_count w < rate_limit cfg"
  shows "\<exists>resp w'. send_message cfg tr ph msg img rc w = Some (resp, w')
           \<and> map_of resp ''error'' \<noteq> None
           \<and> length (posts w') = length (posts w) + nat (max_retries cfg - rc) + 1
           \<and> polls w' = polls w \<and> reports w' = reports w
           \<and> 0 \<le> message_count w' \<and> message_count w' \<le> message_count w"
  using assms(2,3)
proof (induction "nat (max_retries cfg - rc)" arbitrary: rc w rule: less_induct)
  case less
  let ?pl = "make_payload ph msg img"
  let ?w1 = "snd (check_rate_limit cfg w)"
  have pass: "fst (check_rate_limit cfg w)"
    using less.prems by (rule check_passes_below_limit)
  note p = check_pass_props [OF pass]
  have w1: "wait_for_rate_limit cfg w = Some ?w1"
    using pass by (rule wait_pass)
  have c1: "0 \<le> message_count ?w1" "message_count ?w1 \<le> message_count w"
    using p(6) less.prems by auto
  let ?w2 = "?w1\<lparr>posts := posts ?w1 @ [?pl]\<rparr>"
  let ?r = "tr (length (posts w)) ?pl"
  have nf: "\<not> succeeded ?r" using assms(1) by simp
  show ?case
  proof (cases "rc < max_retries cfg")
    case True
    let ?w3 = "sleep (real (retry_delay cfg)) ?w2"
    have eq: "send_message cfg tr ph msg img rc w = send_message cfg tr ph msg img (rc + 1) ?w3"
      using w1 nf True p(1)
      by (subst send_message.simps) (auto simp: Let_def succeeded_def split: http_result.splits)
    have m: "nat (max_retries cfg - (rc + 1)) < nat (max_retries cfg - rc)"
      using True by simp
    have c3: "0 \<le> message_count ?w3" "message_count ?w3 < rate_limit cfg"
      using c1 p(5) by (simp_all add: sleep_def)
    from less.hyps [OF m c3] obtain resp w' where
      r: "send_message cfg tr ph msg img (rc + 1) ?w3 = Some (resp, w')"
         "map_of resp ''error'' \<noteq> None"
         "length (posts w') = length (posts ?w3) + nat (max_retries cfg - (rc + 1)) + 1"
         "polls w' = polls ?w3" "reports w' = reports ?w3"
         "0 \<le> message_count w'" "message_count w' \<le> message_count ?w3"
      by blast
    have "nat (max_retries cfg - (rc + 1)) + 1 = nat (max_retries cfg - rc)"
      using True by simp
    then show ?thesis
      using r eq p c1 by (simp add: sleep_def)
  next
    case False
    have "send_message cfg tr ph msg img rc w = Some (outcome ph ?r, ?w2)"
      using w1 nf False p(1)
      by (subst send_message.simps)
         (auto simp: Let_def succeeded_def outcome_def split: http_result.splits)
    then show ?thesis
      using False p c1 nf by (simp add: outcome_failed)
  qed
qed

lemma report_progress_world:
  "posts (snd (report_progress cb n i c r w)) = posts w"
  "polls (snd (report_progress cb n i c r w)) = polls w"
  "message_count (snd (report_progress cb n i c r w)) = message_count w"
  by (auto simp: report_progress_def Let_def split: option.splits)

lemma process_contact_all_fail:
  assumes "\<forall>k p. \<not> succeeded (tr k p)"
    and "0 \<le> message_count w" and "message_count w < rate_limit cfg"
    and "0 \<le> max_retries cfg"
    and "\<not> isl (py_format t c)" and "map_of c ''phone_number'' \<noteq> None"
  shows "\<exists>r1 w1. process_contact cfg tr t img cb n i c r w = Some (r1, w1)
           \<and> length (posts w1) = length (posts w) + (nat (max_retries cfg) + 1)
           \<and> polls w1 = polls w
           \<and> 0 \<le> message_count w1 \<and> message_count w1 \<le> message_count w"
proof -
  from assms(5) obtain m where m: "py_format t c = Inr m"
    by (cases "py_format t c") auto
  from assms(6) obtain ph where ph: "map_of c ''phone_number'' = Some ph"
    by auto
  from send_message_all_fail [OF assms(1,2,3), of ph m img 0] obtain resp w0 where
    s: "send_message cfg tr ph m img 0 w = Some (resp, w0)"
       "length (posts w0) = length (posts w) + nat (max_retries cfg - 0) + 1"
       "polls w0 = polls w" "0 \<le> message_count w0" "message_count w0 \<le> message_count w"
    by blast
  have "process_contact cfg tr t img cb n i c r w
          = Some (report_progress cb n i c (update_results c resp r) w0)"
    using m ph s(1) by (simp add: process_contact_def)
  then show ?thesis
    using s(2-5)
    by (cases "report_progress cb n i c (update_results c resp r) w0")
       (use report_progress_world [of cb n i c "update_results c resp r" w0] in auto)
qed

text \<open>
  Claim C9. \<open>message_count\<close> grows only on status 200. So against a transport that
  never answers 200 (other statuses, exceptions), starting below the limit, a bulk
  send over any number of contacts that render and have a phone number returns after
  \<open>MAX_RETRIES + 1\<close> posts per contact, \<open>_wait_for_rate_limit\<close> never sleeps, and
  \<open>message_count\<close> has not grown: the number of attempts is not bounded by the limit.
\<close>

theorem failed_sends_not_throttled_C9:
  assumes "\<forall>k p. \<not> succeeded (tr k p)"
    and "0 \<le> message_count w" and "message_count w < rate_limit cfg"
    and "0 \<le> max_retries cfg"
    and "\<forall>c \<in> set cs. \<not> isl (py_format t c) \<and> map_of c ''phone_number'' \<noteq> None"
  shows "\<exists>r w'. send_bulk_messages cfg tr cs t img cb w = Some (r, w')
           \<and> length (posts w') = length (posts w) + length cs * (nat (max_retries cfg) + 1)
           \<and> polls w' = polls w
           \<and> message_count w' \<le> message_count w"
proof -
  have "\<exists>r' w'. bulk_loop cfg tr t img cb n i cs r w = Some (r', w')
           \<and> length (posts w') = length (posts w) + length cs * (nat (max_retries cfg) + 1)
           \<and> polls w' = polls w
           \<and> message_count w' \<le> message_count w" for n i r
    using assms(2,3,5)
  proof (induction cs arbitrary: i r w)
    case Nil
    then show ?case by simp
  next
    case (Cons c cs)
    have "\<not> isl (py_format t c)" "map_of c ''phone_number'' \<noteq> None"
      using Cons.prems(3) by simp_all
    from process_contact_all_fail [OF assms(1) Cons.prems(1,2) assms(4) this, of img cb n i r]
    obtain r1 w1 where
      p: "process_contact cfg tr t img cb n i c r w = Some (r1, w1)"
         "length (posts w1) = length (posts w) + (nat (max_retries cfg) + 1)"
         "polls w1 = polls w" "0 \<le> message_count w1" "message_count w1 \<le> message_count w"
      by blast
    have lim: "message_count w1 < rate_limit cfg"
      using p(5) Cons.prems(2) by simp
    have rest: "\<forall>c \<in> set cs. \<not> isl (py_format t c) \<and> map_of c ''phone_number'' \<noteq> None"
      using Cons.prems(3) by simp
    from Cons.IH [OF p(4) lim rest, of "i + 1" r1] obtain r' w' where
      l: "bulk_loop cfg tr t img cb n (i + 1) cs r1 w1 = Some (r', w')"
         "length (posts w') = length (posts w1) + length cs * (nat (max_retries cfg) + 1)"
         "polls w' = polls w1" "message_count w' \<le> message_count w1"
      by blast
    show ?case
      using p l by simp
  qed
  then show ?thesis
    by (simp add: send_bulk_messages_def)
qed

theorem failed_sends_not_throttled_C9_witness:
  "(\<forall>k p. \<not> succeeded ((\<lambda>k p. RequestException ''down'') k p))
   \<and> 0 \<le> message_count (init_world 0)
   \<and> message_count (init_world 0) < rate_limit \<lparr>max_retries = 3, retry_delay = 5, rate_limit = 2\<rparr>
   \<and> 0 \<le> max_retries \<lparr>max_retries = 3, retry_delay = 5, rate_limit = 2\<rparr>
   \<and> \<not> isl (py_format ''Hi'' [(''phone_number'', ''15550001111'')])
   \<and> map_of [(''phone_number'', ''15550001111'')] ''phone_number'' \<noteq> None
   \<and> (\<exists>r w'.
        send_bulk_messages \<lparr>max_retries = 3, retry_delay = 5, rate_limit = 2\<rparr>
          (\<lambda>k p. RequestException ''down'')
          (replicate 3 [(''phone_number'', ''15550001111'')]) ''Hi'' None None (init_world 0)
          = Some (r, w')
        \<and> length (posts w') = 12 \<and> polls w' = 0 \<and> message_count w' \<le> 0)"
proof -
  let ?cfg = "\<lparr>max_retries = 3, retry_delay = 5, rate_limit = 2\<rparr>"
  let ?c = "[(''phone_number'', ''15550001111'')]"
  have a: "\<forall>k p. \<not> succeeded ((\<lambda>k p. RequestException ''down'') k p)"
    by (simp add: succeeded_def)
  have b: "0 \<le> message_count (init_world 0)"
    and c: "message_count (init_world 0) < rate_limit ?cfg"
    and d: "0 \<le> max_retries ?cfg"
    by (simp_all add: init_world_def)
  have e: "\<not> isl (py_format ''Hi'' ?c)" by code_simp
  have f: "map_of ?c ''phone_number'' \<noteq> None" by simp
  have g: "\<forall>c \<in> set (replicate 3 ?c). \<not> isl (py_format ''Hi'' c) \<and> map_of c ''phone_number'' \<noteq> None"
    using e f by simp
  from failed_sends_not_throttled_C9 [OF a b c d g, of None None]
  show ?thesis
    using a e by (simp add: init_world_def)
qed

subsection \<open>Phone numbers\<close>




end
